theory Spec2Isabelle
  imports Complex_Main
begin

section \<open>JavaScript numbers and strings\<close>

text \<open>
  The web front end computes with JavaScript numbers. Every number the modelled code
  handles is a width, a height, a step count or a value derived from them by
  multiplication with an integer and division by a power of two, so it is modelled as an
  exact rational (\<^typ>\<open>rat\<close>); \<open>NaN\<close> and the infinities are not modelled (a number
  input yields the empty string, hence 0, on text that is not a number).

  \<open>Math.round(x)\<close> is the integer closest to \<open>x\<close>, the one nearer to plus infinity on
  a tie: the floor of \<open>x + 1/2\<close>.
\<close>

definition Math_round :: "rat \<Rightarrow> rat" where
  "Math_round x = of_int \<lfloor>x + 1 / 2\<rfloor>"

text \<open>
  Strings are lists of code units below 256. \<open>String.prototype.trim\<close> removes white
  space and line terminators from both ends; in this range they are tab, line feed,
  vertical tab, form feed, carriage return, space and no-break space.
\<close>

definition is_js_whitespace :: "char \<Rightarrow> bool" where
  "is_js_whitespace c = (of_char c \<in> {9, 10, 11, 12, 13, 32, 160 :: nat})"

definition trim :: "string \<Rightarrow> string" where
  "trim s = rev (dropWhile is_js_whitespace (rev (dropWhile is_js_whitespace s)))"

section \<open>GeneratorForm.tsx: dimension helpers\<close>

text \<open>
  \<^verbatim>\<open>function roundTo64(n) { return Math.round(n / 64) * 64; }\<close>
  \<^verbatim>\<open>function clamp64(n) { return Math.max(64, Math.min(2048, roundTo64(n))); }\<close>
\<close>

definition roundTo64 :: "rat \<Rightarrow> rat" where
  "roundTo64 n = Math_round (n / 64) * 64"

definition clamp64 :: "rat \<Rightarrow> rat" where
  "clamp64 n = max 64 (min 2048 (roundTo64 n))"

text \<open>A number is a multiple of 64 when it is an integer that 64 divides.\<close>

definition multiple_of_64 :: "rat \<Rightarrow> bool" where
  "multiple_of_64 x = (of_int \<lfloor>x\<rfloor> = x \<and> \<lfloor>x\<rfloor> mod 64 = 0)"

section \<open>GeneratorForm.tsx: form state and submission\<close>

datatype GenerationMode = txt2img | img2img | inpaint

text \<open>An uploaded \<open>File\<close>: its name and its MIME type.\<close>

datatype upload = File (file_name: string) (file_type: string)

text \<open>
  The state variables of the \<open>GeneratorForm\<close> component (one \<open>useState\<close> each; the
  two preview URLs are display only and left out). Fields carry the prefix \<open>form_\<close>
  to keep them apart from the fields of \<open>GenerationValues\<close>.
\<close>

record form_state =
  form_mode :: GenerationMode
  form_prompt :: string
  form_negativePrompt :: string
  form_selectedRatio :: string
  form_width :: rat
  form_height :: rat
  form_steps :: rat
  form_cfgScale :: rat
  form_seed :: rat
  form_batchSize :: rat
  form_samplerName :: string
  form_scheduler :: string
  form_clipSkip :: rat
  form_strength :: rat
  form_showAdvanced :: bool
  form_image :: "upload option"
  form_mask :: "upload option"

text \<open>The initial values given to \<open>useState\<close>.\<close>

definition initial_form :: form_state where
  "initial_form =
     \<lparr>form_mode = txt2img, form_prompt = '''', form_negativePrompt = '''',
      form_selectedRatio = ''1:1'', form_width = 1024, form_height = 1024,
      form_steps = 8, form_cfgScale = 1, form_seed = - 1, form_batchSize = 1,
      form_samplerName = '''', form_scheduler = '''', form_clipSkip = - 1,
      form_strength = 3 / 4, form_showAdvanced = False,
      form_image = None, form_mask = None\<rparr>"

text \<open>The object handed to \<open>onGenerate\<close> (\<open>GenerationValues\<close> of \<open>lib/types\<close>).\<close>

record GenerationValues =
  mode :: GenerationMode
  prompt :: string
  negative_prompt :: string
  width :: rat
  height :: rat
  steps :: rat
  cfg_scale :: rat
  seed :: rat
  batch_size :: rat
  sampler_name :: string
  scheduler :: string
  clip_skip :: rat
  strength :: rat
  image :: "upload option"
  mask :: "upload option"


definition setPrompt :: "string \<Rightarrow> form_state \<Rightarrow> form_state" where
  "setPrompt p st = st\<lparr>form_prompt := p\<rparr>"

text \<open>
  The \<open>onChange\<close> handlers of the custom width and height inputs:
  \<^verbatim>\<open>setWidth(clamp64(Number(e.target.value)))\<close>; the argument is the number read from
  the input.
\<close>

definition onWidthChange :: "rat \<Rightarrow> form_state \<Rightarrow> form_state" where
  "onWidthChange n st = st\<lparr>form_width := clamp64 n\<rparr>"

definition onHeightChange :: "rat \<Rightarrow> form_state \<Rightarrow> form_state" where
  "onHeightChange n st = st\<lparr>form_height := clamp64 n\<rparr>"

text \<open>
  \<open>handleSubmit\<close>: returns without calling \<open>onGenerate\<close> (\<open>None\<close>) when the trimmed
  prompt is empty or a generation is running (\<open>isGenerating\<close> is a prop of the form);
  otherwise calls \<open>onGenerate\<close> with the object built from the state.
\<close>

definition handleSubmit :: "form_state \<Rightarrow> bool \<Rightarrow> GenerationValues option" where
  "handleSubmit st isGenerating =
     (if trim (form_prompt st) = [] \<or> isGenerating then None
      else Some
        \<lparr>mode = form_mode st,
         prompt = trim (form_prompt st),
         negative_prompt = form_negativePrompt st,
         width = form_width st,
         height = form_height st,
         steps = form_steps st,
         cfg_scale = form_cfgScale st,
         seed = form_seed st,
         batch_size = form_batchSize st,
         sampler_name = form_samplerName st,
         scheduler = form_scheduler st,
         clip_skip = form_clipSkip st,
         strength = form_strength st,
         image = form_image st,
         mask = form_mask st\<rparr>)"








section \<open>page.tsx: the Home component\<close>

text \<open>
  The state of \<open>Home\<close> that \<open>handleGenerate\<close> and the lightbox touch (\<open>health\<close>,
  \<open>samplers\<close> and \<open>schedulers\<close> are only written by the mount effect).
\<close>

record home_state =
  images :: "string list"
  lightboxIdx :: "int option"
  isGenerating :: bool
  estimatedMs :: rat
  error :: "string option"

text \<open>The initial values given to \<open>useState\<close>.\<close>

definition initial_home :: home_state where
  "initial_home =
     \<lparr>images = [], lightboxIdx = None, isGenerating = False, estimatedMs = 0, error = None\<rparr>"

text \<open>The result of \<open>generate(values)\<close>: the promise resolves or rejects.\<close>

record GenerationResult =
  result_images :: "string list"

datatype thrown = ErrorObject string | OtherValue

datatype generate_outcome = Resolved GenerationResult | Rejected thrown

definition estimate :: "GenerationValues \<Rightarrow> rat" where
  "estimate values =
     (let pixels = width values * height values
      in 30000 * (pixels / (1024 * 1024)) * (steps values / 8))"

text \<open>
  \<open>handleGenerate\<close> is asynchronous. Up to the \<open>await\<close> it clears the error, stores the
  estimate and sets \<open>isGenerating\<close>; after the promise has settled it prepends the
  result's images (a functional update, applied to the list of that moment) or stores
  the error message, and finally clears \<open>isGenerating\<close>.
\<close>

definition handleGenerate_begin :: "GenerationValues \<Rightarrow> home_state \<Rightarrow> home_state" where
  "handleGenerate_begin values st =
     st\<lparr>error := None, estimatedMs := estimate values, isGenerating := True\<rparr>"

definition handleGenerate_settle :: "generate_outcome \<Rightarrow> home_state \<Rightarrow> home_state" where
  "handleGenerate_settle outcome st =
     (case outcome of
        Resolved result \<Rightarrow> st\<lparr>images := result_images result @ images st\<rparr>
      | Rejected err \<Rightarrow>
          st\<lparr>error := Some (case err of ErrorObject message \<Rightarrow> message
                                | OtherValue \<Rightarrow> ''Generation failed'')\<rparr>)
     \<lparr>isGenerating := False\<rparr>"

definition handleGenerate :: "GenerationValues \<Rightarrow> generate_outcome \<Rightarrow> home_state \<Rightarrow> home_state" where
  "handleGenerate values outcome st =
     handleGenerate_settle outcome (handleGenerate_begin values st)"

text \<open>
  \<open>ProgressWater\<close> renders nothing unless \<open>isGenerating\<close>; otherwise it runs the
  \<open>rise\<close> animation for \<open>durationMs\<close> milliseconds. The result is that duration.
\<close>

definition ProgressWater :: "rat \<Rightarrow> bool \<Rightarrow> rat option" where
  "ProgressWater durationMs generating = (if \<not> generating then None else Some durationMs)"

section \<open>Lightbox\<close>

text \<open>
  The callbacks a user action triggers, in order. \<open>currentIdx\<close> is a number; indices
  are integers. The previous and next buttons exist only while \<open>hasPrev\<close> and
  \<open>hasNext\<close> hold; a click on a button that is not rendered triggers nothing.
  Clicks on these two buttons and on the image stop propagation; a click on the close
  button bubbles to the backdrop, whose handler is \<open>onClose\<close> as well.
\<close>

datatype lightbox_callback = onClose | onNavigate int

datatype lightbox_action =
  KeyDown string | ClickPrevious | ClickNext | ClickCloseButton | ClickBackdrop | ClickImage

definition hasPrev :: "int \<Rightarrow> bool" where
  "hasPrev currentIdx = (currentIdx > 0)"

definition hasNext :: "string list \<Rightarrow> int \<Rightarrow> bool" where
  "hasNext imgs currentIdx = (currentIdx < int (length imgs) - 1)"

definition handleKeyDown :: "string list \<Rightarrow> int \<Rightarrow> string \<Rightarrow> lightbox_callback list" where
  "handleKeyDown imgs currentIdx key =
     (if key = ''Escape'' then [onClose] else [])
     @ (if key = ''ArrowLeft'' \<and> hasPrev currentIdx then [onNavigate (currentIdx - 1)] else [])
     @ (if key = ''ArrowRight'' \<and> hasNext imgs currentIdx then [onNavigate (currentIdx + 1)] else [])"

fun Lightbox :: "string list \<Rightarrow> int \<Rightarrow> lightbox_action \<Rightarrow> lightbox_callback list" where
  "Lightbox imgs currentIdx (KeyDown key) = handleKeyDown imgs currentIdx key"
| "Lightbox imgs currentIdx ClickPrevious =
     (if hasPrev currentIdx then [onNavigate (currentIdx - 1)] else [])"
| "Lightbox imgs currentIdx ClickNext =
     (if hasNext imgs currentIdx then [onNavigate (currentIdx + 1)] else [])"
| "Lightbox imgs currentIdx ClickCloseButton = [onClose, onClose]"
| "Lightbox imgs currentIdx ClickBackdrop = [onClose]"
| "Lightbox imgs currentIdx ClickImage = []"

text \<open>\<open>Home\<close> passes \<open>setLightboxIdx\<close> as \<open>onNavigate\<close> and clears the index on close.\<close>

fun run_callback :: "lightbox_callback \<Rightarrow> home_state \<Rightarrow> home_state" where
  "run_callback onClose st = st\<lparr>lightboxIdx := None\<rparr>"
| "run_callback (onNavigate idx) st = st\<lparr>lightboxIdx := Some idx\<rparr>"

section \<open>generate.sh\<close>

text \<open>
  The shell variables of the script, all strings, and their values after the
  \<open>Defaults\<close> block.
\<close>

record sh_vars =
  PROMPT :: string
  NEGATIVE :: string
  INIT_IMG :: string
  STRENGTH :: string
  OUTPUT :: string
  WIDTH :: string
  HEIGHT :: string
  STEPS :: string
  SEED :: string

definition Defaults :: sh_vars where
  "Defaults =
     \<lparr>PROMPT = '''', NEGATIVE = '''', INIT_IMG = '''', STRENGTH = ''0.75'',
      OUTPUT = ''output.png'', WIDTH = ''1024'', HEIGHT = ''1024'', STEPS = ''8'',
      SEED = ''-1''\<rparr>"

text \<open>
  \<open>"$2"\<close> expands to the empty string when there is no second positional parameter
  (the script does not set \<open>-u\<close>), and \<open>shift 2\<close> leaves the parameters unchanged when
  fewer than two remain.
\<close>

definition arg2 :: "string list \<Rightarrow> string" where
  "arg2 args = (case args of _ # v # _ \<Rightarrow> v | _ \<Rightarrow> '''')"

definition shift2 :: "string list \<Rightarrow> string list" where
  "shift2 args = (if 2 \<le> length args then drop 2 args else args)"

text \<open>
  The argument loop \<open>while [[ $# -gt 0 ]]; do case "$1" in ... esac; done\<close>. It ends
  with the variables, or with the message of the \<open>*)\<close> branch (which exits 1). With a
  known option as the last argument \<open>shift 2\<close> fails and the loop does not end: the
  result is \<open>None\<close>.
\<close>

partial_function (option) parse_arguments :: "sh_vars \<Rightarrow> string list \<Rightarrow> (string + sh_vars) option" where
  "parse_arguments vars args =
     (case args of
        [] \<Rightarrow> Some (Inr vars)
      | a # _ \<Rightarrow>
          if a = ''-p'' then parse_arguments (vars\<lparr>PROMPT := arg2 args\<rparr>) (shift2 args)
          else if a = ''-n'' then parse_arguments (vars\<lparr>NEGATIVE := arg2 args\<rparr>) (shift2 args)
          else if a = ''-i'' then parse_arguments (vars\<lparr>INIT_IMG := arg2 args\<rparr>) (shift2 args)
          else if a = ''-s'' then parse_arguments (vars\<lparr>STRENGTH := arg2 args\<rparr>) (shift2 args)
          else if a = ''-o'' then parse_arguments (vars\<lparr>OUTPUT := arg2 args\<rparr>) (shift2 args)
          else if a = ''-W'' then parse_arguments (vars\<lparr>WIDTH := arg2 args\<rparr>) (shift2 args)
          else if a = ''-H'' then parse_arguments (vars\<lparr>HEIGHT := arg2 args\<rparr>) (shift2 args)
          else if a = ''-S'' then parse_arguments (vars\<lparr>STEPS := arg2 args\<rparr>) (shift2 args)
          else if a = ''--seed'' then parse_arguments (vars\<lparr>SEED := arg2 args\<rparr>) (shift2 args)
          else Some (Inl (''Unknown option: '' @ a)))"

declare parse_arguments.simps [code]

text \<open>The \<open>CMD\<close> array, with the two conditional extensions; \<open>dir\<close> is \<open>SCRIPT_DIR\<close>.\<close>

definition CMD :: "string \<Rightarrow> sh_vars \<Rightarrow> string list" where
  "CMD dir vars =
     [dir @ ''/stable-diffusion.cpp/build/bin/sd-cli'',
      ''--diffusion-model'', dir @ ''/models/z_image_turbo-Q6_K.gguf'',
      ''--vae'', dir @ ''/models/vae/split_files/vae/ae.safetensors'',
      ''--llm'', dir @ ''/models/text_encoder/Qwen3-4B-Instruct-2507-Q4_K_M.gguf'',
      ''-p'', PROMPT vars,
      ''--cfg-scale'', ''1.0'',
      ''--steps'', STEPS vars,
      ''--seed'', SEED vars,
      ''--diffusion-fa'',
      ''--offload-to-cpu'',
      ''-H'', HEIGHT vars, ''-W'', WIDTH vars,
      ''-o'', OUTPUT vars]
     @ (if NEGATIVE vars \<noteq> '''' then [''-n'', NEGATIVE vars] else [])
     @ (if INIT_IMG vars \<noteq> '''' then [''--init-img'', INIT_IMG vars, ''--strength'', STRENGTH vars] else [])"

text \<open>
  What the script does: print lines and exit with status 1, or run the engine command
  line. \<open>None\<close>: the argument loop does not end.
\<close>

datatype sh_outcome = Exit1 "string list" | Run "string list"

definition prompt_required :: "string list" where
  "prompt_required =
     [''Error: prompt is required. Use -p '' @ [CHR 0x22] @ ''your prompt'' @ [CHR 0x22],
      ''Run './generate.sh' and see the header for full usage.'']"

definition generate_sh :: "string \<Rightarrow> string list \<Rightarrow> sh_outcome option" where
  "generate_sh dir args =
     (case parse_arguments Defaults args of
        None \<Rightarrow> None
      | Some (Inl message) \<Rightarrow> Some (Exit1 [message])
      | Some (Inr vars) \<Rightarrow>
          if PROMPT vars = '''' then Some (Exit1 prompt_required)
          else Some (Run (CMD dir vars)))"



section \<open>Health status\<close>

text \<open>
  Modelled from the spec: the health computation of the service (HealthMonitor,
  \<open>server/sd_backend.py\<close>) is not among the sources. The spec gives the engine's five
  states and the table: Starting, Crashed and Stopped are down, Degraded is degraded,
  Ready is ok.
\<close>

datatype EngineState = Stopped | Starting | Ready | Degraded | Crashed

datatype HealthStatus = ok | degraded | down

fun health_status :: "EngineState \<Rightarrow> HealthStatus" where
  "health_status Starting = down"
| "health_status Crashed = down"
| "health_status Stopped = down"
| "health_status Degraded = degraded"
| "health_status Ready = ok"

section \<open>Request translation\<close>

text \<open>
  Modelled from the spec: the RequestTranslator of the service (\<open>server/models.py\<close>,
  \<open>server/app.py\<close>) is not among the sources. Spec sections 3 and 4.3:
  \<open>translate\<close> fails with \<open>ValidationError\<close> when width or height is not a multiple
  of 64 or is outside 64 to 2048, when the mode requires an image or a mask that is
  absent (a source image unless the mode is text to image, a mask for inpaint), when
  the strength is outside 0 to 1 where it is required (image to image and inpaint), or
  when the prompt is empty; the user sees the violated constraint. Inpaint is rejected
  as well when the engine build lacks mask support, found out once at startup
  (\<open>mask_support\<close>). Otherwise text to image maps to the engine's generation call,
  image to image adds the source image and a denoising strength taken from the
  strength, and inpaint adds the mask. The request is the object the client sends; the
  checks are made in the order the spec lists them. First the results: the violated
  constraint of a \<open>ValidationError\<close>, and the wire request.
\<close>

datatype violated_constraint =
  DimensionInvalid | SourceImageAbsent | MaskAbsent | StrengthOutOfRange | PromptEmpty

datatype translate_error = ValidationError violated_constraint | MaskSupportLacking

record EngineWireRequest =
  generation_fields :: GenerationValues
  init_image :: "upload option"
  denoising_strength :: "rat option"
  wire_mask :: "upload option"

text \<open>
  Modelled from the spec: the RequestTranslator is not among the sources. A width or
  height is valid when it is a multiple of 64 in the range 64 to 2048 (spec section 3).
\<close>

definition valid_dimension :: "rat \<Rightarrow> bool" where
  "valid_dimension d = (multiple_of_64 d \<and> 64 \<le> d \<and> d \<le> 2048)"

text \<open>
  Modelled from the spec: the RequestTranslator is not among the sources. \<open>translate\<close>
  of spec section 4.3, with the failures in the order listed there, then the gate on
  mask support, then the mode routing.
\<close>

definition translate :: "bool \<Rightarrow> GenerationValues \<Rightarrow> translate_error + EngineWireRequest" where
  "translate mask_support req =
     (if \<not> valid_dimension (width req) \<or> \<not> valid_dimension (height req)
        then Inl (ValidationError DimensionInvalid)
      else if mode req \<noteq> txt2img \<and> image req = None
        then Inl (ValidationError SourceImageAbsent)
      else if mode req = inpaint \<and> mask req = None
        then Inl (ValidationError MaskAbsent)
      else if mode req \<noteq> txt2img \<and> \<not> (0 \<le> strength req \<and> strength req \<le> 1)
        then Inl (ValidationError StrengthOutOfRange)
      else if prompt req = []
        then Inl (ValidationError PromptEmpty)
      else if mode req = inpaint \<and> \<not> mask_support
        then Inl MaskSupportLacking
      else Inr \<lparr>generation_fields = req,
                init_image = (if mode req = txt2img then None else image req),
                denoising_strength = (if mode req = txt2img then None else Some (strength req)),
                wire_mask = (if mode req = inpaint then mask req else None)\<rparr>)"

section \<open>Facts about the dimension helpers\<close>

text \<open>\<open>clamp64\<close> is 64 times the rounded quotient, clamped between 1 and 32.\<close>

lemma clamp64_int: "clamp64 x = of_int (64 * max 1 (min 32 \<lfloor>x / 64 + 1 / 2\<rfloor>))"
  unfolding clamp64_def roundTo64_def Math_round_def
  by (simp add: max_def min_def)

lemma round_of_multiple: "\<lfloor>(of_int (64 * k) :: rat) / 64 + 1 / 2\<rfloor> = k"
  by (simp add: floor_unique)

lemma clamp64_of_multiple: "clamp64 (of_int (64 * k)) = of_int (64 * max 1 (min 32 k))"
  unfolding clamp64_int round_of_multiple ..

lemma clamp64_lower: "64 \<le> clamp64 x"
  by (simp add: clamp64_def)

lemma clamp64_upper: "clamp64 x \<le> 2048"
  by (simp add: clamp64_def)

lemma multiple_of_64_of_int: "multiple_of_64 (of_int (64 * k))"
  unfolding multiple_of_64_def floor_of_int by simp

lemma clamp64_multiple: "multiple_of_64 (clamp64 x)"
  unfolding clamp64_int by (rule multiple_of_64_of_int)

lemma clamp64_idem: "clamp64 (clamp64 x) = clamp64 x"
proof -
  define k where "k = max 1 (min 32 \<lfloor>x / 64 + 1 / 2\<rfloor>)"
  have k: "max 1 (min 32 k) = k" by (simp add: k_def)
  have "clamp64 x = of_int (64 * k)" by (simp only: clamp64_int k_def)
  then show ?thesis by (simp only: clamp64_of_multiple k)
qed

lemma clamp64_fixed:
  assumes "multiple_of_64 x" "64 \<le> x" "x \<le> 2048"
  shows "clamp64 x = x"
proof -
  from assms(1) have xi: "of_int \<lfloor>x\<rfloor> = x" and d: "\<lfloor>x\<rfloor> mod 64 = 0"
    unfolding multiple_of_64_def by blast+
  define k where "k = \<lfloor>x\<rfloor> div 64"
  from d have fk: "\<lfloor>x\<rfloor> = 64 * k" unfolding k_def by (simp add: mod_eq_0_iff_dvd)
  have xk: "x = of_int (64 * k)" by (simp only: xi fk [symmetric])
  from assms(2) have "64 \<le> \<lfloor>x\<rfloor>" by (simp add: le_floor_iff)
  moreover from assms(3) have "\<lfloor>x\<rfloor> \<le> 2048" by (simp add: floor_le_iff)
  ultimately have "1 \<le> k" "k \<le> 32" using fk by simp_all
  then have "max 1 (min 32 k) = k" by simp
  then show ?thesis unfolding xk clamp64_of_multiple by (simp only:)
qed

lemma clamp64_100: "clamp64 100 = 128"
  by (simp add: clamp64_def roundTo64_def Math_round_def floor_unique)

lemma clamp64_5000: "clamp64 5000 = 2048"
  by (simp add: clamp64_def roundTo64_def Math_round_def floor_unique)

text \<open>
  C8. For every integer \<open>n\<close>, \<open>clamp64 n\<close> is a multiple of 64 between 64 and 2048,
  applying \<open>clamp64\<close> twice gives the same as applying it once, and a multiple of 64
  that already lies between 64 and 2048 is returned unchanged.
\<close>

theorem clamp64_multiple_range_idempotent:
  fixes n :: int
  shows "multiple_of_64 (clamp64 (of_int n))
       \<and> 64 \<le> clamp64 (of_int n) \<and> clamp64 (of_int n) \<le> 2048
       \<and> clamp64 (clamp64 (of_int n)) = clamp64 (of_int n)
       \<and> (n mod 64 = 0 \<and> 64 \<le> n \<and> n \<le> 2048 \<longrightarrow> clamp64 (of_int n) = of_int n)"
proof (intro conjI impI)
  assume a: "n mod 64 = 0 \<and> 64 \<le> n \<and> n \<le> 2048"
  then have "multiple_of_64 (of_int n)"
    unfolding multiple_of_64_def floor_of_int by simp
  moreover from a have "(64::rat) \<le> of_int n" "(of_int n :: rat) \<le> 2048" by simp_all
  ultimately show "clamp64 (of_int n) = of_int n" by (rule clamp64_fixed)
qed (rule clamp64_multiple clamp64_lower clamp64_upper clamp64_idem)+

text \<open>The theorem at 1536, a multiple of 64 in range, which \<open>clamp64\<close> returns unchanged.\<close>

theorem clamp64_multiple_range_idempotent_witness:
  "(1536::int) mod 64 = 0 \<and> (64::int) \<le> 1536 \<and> (1536::int) \<le> 2048
   \<and> clamp64 (of_int 1536) = of_int 1536
   \<and> multiple_of_64 (clamp64 (of_int 1536))"
proof -
  have h: "(1536::int) mod 64 = 0 \<and> (64::int) \<le> 1536 \<and> (1536::int) \<le> 2048" by simp
  from clamp64_multiple_range_idempotent [of 1536] h show ?thesis by blast
qed

section \<open>The duration estimate\<close>

text \<open>
  C1. For every request, the estimate stored by \<open>handleGenerate\<close> before the request
  is forwarded is 30000 times (width times height over 1024 times 1024) times (steps
  over 8) milliseconds. Neither outcome of the call changes it afterwards, and it is the
  duration \<open>ProgressWater\<close> runs with while the call is pending.
\<close>

theorem estimate_proportional:
  "estimatedMs (handleGenerate_begin values st)
     = 30000 * ((width values * height values) / (1024 * 1024)) * (steps values / 8)
   \<and> estimatedMs (handleGenerate values outcome st)
     = 30000 * ((width values * height values) / (1024 * 1024)) * (steps values / 8)
   \<and> ProgressWater (estimatedMs (handleGenerate_begin values st))
                    (isGenerating (handleGenerate_begin values st))
     = Some (30000 * ((width values * height values) / (1024 * 1024)) * (steps values / 8))"
  by (cases outcome)
     (simp_all add: handleGenerate_def handleGenerate_begin_def handleGenerate_settle_def
        estimate_def ProgressWater_def)

text \<open>A 512 by 1024 request with 8 steps is estimated at 15000 milliseconds.\<close>

theorem estimate_proportional_witness:
  "estimatedMs (handleGenerate_begin
      \<lparr>mode = txt2img, prompt = ''a cat'', negative_prompt = '''', width = 512, height = 1024,
       steps = 8, cfg_scale = 1, seed = - 1, batch_size = 1, sampler_name = '''',
       scheduler = '''', clip_skip = - 1, strength = 3 / 4, image = None, mask = None\<rparr>
      initial_home)
     = 15000"
  using estimate_proportional
    [of "\<lparr>mode = txt2img, prompt = ''a cat'', negative_prompt = '''', width = 512, height = 1024,
       steps = 8, cfg_scale = 1, seed = - 1, batch_size = 1, sampler_name = '''',
       scheduler = '''', clip_skip = - 1, strength = 3 / 4, image = None, mask = None\<rparr>"
        initial_home "Rejected OtherValue"]
  by simp

section \<open>The gallery\<close>

text \<open>
  C9. When the generation call succeeds, the new gallery list is the result's images,
  in their order, followed by the previous list: the new images are its first elements,
  the previous list is what follows them, and every previous image is found unchanged,
  shifted by the number of new images.
\<close>

theorem gallery_prepends_result:
  "images (handleGenerate_settle (Resolved result) st) = result_images result @ images st
   \<and> take (length (result_images result)) (images (handleGenerate_settle (Resolved result) st))
       = result_images result
   \<and> drop (length (result_images result)) (images (handleGenerate_settle (Resolved result) st))
       = images st
   \<and> (\<forall>i < length (images st).
         images (handleGenerate_settle (Resolved result) st) ! (length (result_images result) + i)
           = images st ! i)
   \<and> images (handleGenerate values (Resolved result) st) = result_images result @ images st"
  by (simp add: handleGenerate_def handleGenerate_begin_def handleGenerate_settle_def nth_append)

text \<open>Two new images in front of three old ones; the old second image is now the fourth.\<close>

theorem gallery_prepends_result_witness:
  "images (handleGenerate_settle (Resolved \<lparr>result_images = [''n1'', ''n2'']\<rparr>)
             (initial_home\<lparr>images := [''o1'', ''o2'', ''o3'']\<rparr>))
     = [''n1'', ''n2'', ''o1'', ''o2'', ''o3'']
   \<and> (1::nat) < length (images (initial_home\<lparr>images := [''o1'', ''o2'', ''o3'']\<rparr>))
   \<and> images (handleGenerate_settle (Resolved \<lparr>result_images = [''n1'', ''n2'']\<rparr>)
             (initial_home\<lparr>images := [''o1'', ''o2'', ''o3'']\<rparr>)) ! (2 + 1) = ''o2''"
  using gallery_prepends_result
    [of "\<lparr>result_images = [''n1'', ''n2'']\<rparr>" "initial_home\<lparr>images := [''o1'', ''o2'', ''o3'']\<rparr>"]
  by (simp add: initial_home_def)

section \<open>Lightbox navigation\<close>

text \<open>
  C10. With a non-empty image list and a current index inside it, every index a
  navigation action (an arrow key or the previous or next button) passes to
  \<open>onNavigate\<close> is inside the list as well: it is the index before, which needs a
  current index above 0, or the index after, which needs a current index below the last.
\<close>

theorem lightbox_navigation_in_range:
  assumes "imgs \<noteq> []" and "0 \<le> currentIdx" and "currentIdx < int (length imgs)"
    and "onNavigate idx \<in> set (Lightbox imgs currentIdx action)"
  shows "0 \<le> idx \<and> idx < int (length imgs)
       \<and> (idx = currentIdx - 1 \<and> 0 < currentIdx
          \<or> idx = currentIdx + 1 \<and> currentIdx < int (length imgs) - 1)"
  using assms
  by (cases action) (auto simp: handleKeyDown_def hasPrev_def hasNext_def split: if_splits)

text \<open>The next button on the second of three images leads to the third.\<close>

theorem lightbox_navigation_in_range_witness:
  "[''a'', ''b'', ''c''] \<noteq> [] \<and> (0::int) \<le> 1 \<and> (1::int) < int (length [''a'', ''b'', ''c''])
   \<and> onNavigate 2 \<in> set (Lightbox [''a'', ''b'', ''c''] 1 ClickNext)
   \<and> (2::int) < int (length [''a'', ''b'', ''c''])"
proof -
  have 1: "[''a'', ''b'', ''c''] \<noteq> []" by simp
  have 2: "(0::int) \<le> 1" by simp
  have 3: "(1::int) < int (length [''a'', ''b'', ''c''])" by simp
  have 4: "onNavigate 2 \<in> set (Lightbox [''a'', ''b'', ''c''] 1 ClickNext)"
    by (simp add: hasNext_def)
  from lightbox_navigation_in_range [OF 1 2 3 4] 1 2 3 4 show ?thesis by simp
qed

section \<open>The health table\<close>

text \<open>
  C4. The health status is a function of the engine state alone: Starting, Crashed and
  Stopped give down, Degraded gives degraded, Ready gives ok, and each status comes
  from exactly those states.
\<close>

theorem health_status_table:
  "health_status Starting = down \<and> health_status Crashed = down \<and> health_status Stopped = down
   \<and> health_status Degraded = degraded \<and> health_status Ready = ok
   \<and> (health_status s = ok \<longleftrightarrow> s = Ready)
   \<and> (health_status s = degraded \<longleftrightarrow> s = Degraded)
   \<and> (health_status s = down \<longleftrightarrow> s = Starting \<or> s = Crashed \<or> s = Stopped)"
  by (cases s) simp_all

text \<open>The table at Ready.\<close>

theorem health_status_table_witness:
  "health_status Ready = ok \<and> (health_status Ready = ok \<longleftrightarrow> Ready = Ready)"
  using health_status_table [of Ready] by simp

section \<open>Submission of the form\<close>


lemma handleSubmit_forwards:
  "handleSubmit st g = None \<longleftrightarrow> trim (form_prompt st) = [] \<or> g"
  by (simp add: handleSubmit_def)

lemma handleSubmit_width:
  "map_option width (handleSubmit st g)
     = (if trim (form_prompt st) = [] \<or> g then None else Some (form_width st))"
  by (simp add: handleSubmit_def)

lemma handleSubmit_height:
  "map_option height (handleSubmit st g)
     = (if trim (form_prompt st) = [] \<or> g then None else Some (form_height st))"
  by (simp add: handleSubmit_def)


text \<open>
  The form itself validates neither dimensions nor the mask. A width or height typed
  into it is replaced by \<open>clamp64\<close> of it and forwarded; a submission in mode inpaint
  without a mask is handed to \<open>onGenerate\<close> when the prompt is not blank and no
  generation is running.
\<close>

lemma form_clamps_dimension:
  "form_width (onWidthChange n st) = clamp64 n
   \<and> form_height (onHeightChange n st) = clamp64 n
   \<and> multiple_of_64 (clamp64 n) \<and> 64 \<le> clamp64 n \<and> clamp64 n \<le> 2048
   \<and> (trim (form_prompt st) \<noteq> [] \<longrightarrow>
        map_option width (handleSubmit (onWidthChange n st) False) = Some (clamp64 n)
        \<and> map_option height (handleSubmit (onHeightChange n st) False) = Some (clamp64 n))"
  by (simp add: handleSubmit_width handleSubmit_height onWidthChange_def onHeightChange_def
      clamp64_multiple clamp64_lower clamp64_upper)

lemma form_forwards_inpaint_without_mask:
  assumes "form_mode st = inpaint" and "form_mask st = None"
  shows "(handleSubmit st g = None \<longleftrightarrow> trim (form_prompt st) = [] \<or> g)
       \<and> map_option (\<lambda>v. (mode v, mask v)) (handleSubmit st g)
           = (if trim (form_prompt st) = [] \<or> g then None else Some (inpaint, None))"
  using assms by (simp add: handleSubmit_def)









section \<open>Validation by the translator\<close>

text \<open>
  C2. Every request whose width or height is not a multiple of 64 or lies outside 64 to
  2048 is rejected by \<open>translate\<close> with \<open>ValidationError\<close>, naming the dimension
  constraint: no wire request is made of it, so it is neither adjusted nor forwarded.
\<close>

theorem invalid_dimension_rejected:
  assumes "\<not> (multiple_of_64 (width req) \<and> 64 \<le> width req \<and> width req \<le> 2048)
         \<or> \<not> (multiple_of_64 (height req) \<and> 64 \<le> height req \<and> height req \<le> 2048)"
  shows "translate mask_support req = Inl (ValidationError DimensionInvalid)
       \<and> (\<forall>wire. translate mask_support req \<noteq> Inr wire)"
  using assms by (auto simp: translate_def valid_dimension_def)

text \<open>A width of 100, no multiple of 64, and a height of 4096, above 2048.\<close>

theorem invalid_dimension_rejected_witness:
  "\<not> multiple_of_64 100
   \<and> translate True
        \<lparr>mode = txt2img, prompt = ''a cat'', negative_prompt = '''', width = 100, height = 1024,
         steps = 8, cfg_scale = 1, seed = - 1, batch_size = 1, sampler_name = '''',
         scheduler = '''', clip_skip = - 1, strength = 3 / 4, image = None, mask = None\<rparr>
       = Inl (ValidationError DimensionInvalid)
   \<and> \<not> (4096::rat) \<le> 2048
   \<and> translate True
        \<lparr>mode = txt2img, prompt = ''a cat'', negative_prompt = '''', width = 1024, height = 4096,
         steps = 8, cfg_scale = 1, seed = - 1, batch_size = 1, sampler_name = '''',
         scheduler = '''', clip_skip = - 1, strength = 3 / 4, image = None, mask = None\<rparr>
       = Inl (ValidationError DimensionInvalid)"
proof -
  have 1: "\<not> multiple_of_64 100" by (simp add: multiple_of_64_def)
  have 2: "\<not> (4096::rat) \<le> 2048" by simp
  from 1 2
    invalid_dimension_rejected
      [of "\<lparr>mode = txt2img, prompt = ''a cat'', negative_prompt = '''', width = 100, height = 1024,
         steps = 8, cfg_scale = 1, seed = - 1, batch_size = 1, sampler_name = '''',
         scheduler = '''', clip_skip = - 1, strength = 3 / 4, image = None, mask = None\<rparr>" True]
    invalid_dimension_rejected
      [of "\<lparr>mode = txt2img, prompt = ''a cat'', negative_prompt = '''', width = 1024, height = 4096,
         steps = 8, cfg_scale = 1, seed = - 1, batch_size = 1, sampler_name = '''',
         scheduler = '''', clip_skip = - 1, strength = 3 / 4, image = None, mask = None\<rparr>" True]
  show ?thesis by simp
qed

text \<open>
  C3. Every request with mode inpaint and no mask is rejected by \<open>translate\<close> with a
  \<open>ValidationError\<close>, whatever its other fields and whatever the engine supports: no
  wire request is made of it. When its dimensions are valid and its source image is
  present, the constraint named is the absent mask.
\<close>

theorem inpaint_without_mask_rejected:
  assumes "mode req = inpaint" and "mask req = None"
  shows "(\<exists>c. translate mask_support req = Inl (ValidationError c))
       \<and> (\<forall>wire. translate mask_support req \<noteq> Inr wire)
       \<and> (valid_dimension (width req) \<and> valid_dimension (height req) \<and> image req \<noteq> None
            \<longrightarrow> translate mask_support req = Inl (ValidationError MaskAbsent))"
  using assms by (auto simp: translate_def)

text \<open>An inpaint request with a source image, valid in every other field, without mask.\<close>

theorem inpaint_without_mask_rejected_witness:
  "mode
     \<lparr>mode = inpaint, prompt = ''a cat'', negative_prompt = '''', width = 1024, height = 1024,
      steps = 8, cfg_scale = 1, seed = - 1, batch_size = 1, sampler_name = '''',
      scheduler = '''', clip_skip = - 1, strength = 3 / 4,
      image = Some (File ''in.png'' ''image/png''), mask = None\<rparr> = inpaint
   \<and> valid_dimension 1024
   \<and> translate True
     \<lparr>mode = inpaint, prompt = ''a cat'', negative_prompt = '''', width = 1024, height = 1024,
      steps = 8, cfg_scale = 1, seed = - 1, batch_size = 1, sampler_name = '''',
      scheduler = '''', clip_skip = - 1, strength = 3 / 4,
      image = Some (File ''in.png'' ''image/png''), mask = None\<rparr>
     = Inl (ValidationError MaskAbsent)"
proof -
  have d: "valid_dimension 1024" by (simp add: valid_dimension_def multiple_of_64_def)
  from d inpaint_without_mask_rejected
    [of "\<lparr>mode = inpaint, prompt = ''a cat'', negative_prompt = '''', width = 1024, height = 1024,
      steps = 8, cfg_scale = 1, seed = - 1, batch_size = 1, sampler_name = '''',
      scheduler = '''', clip_skip = - 1, strength = 3 / 4,
      image = Some (File ''in.png'' ''image/png''), mask = None\<rparr>" True]
  show ?thesis by simp
qed

section \<open>Facts about generate.sh\<close>

text \<open>One round of the argument loop, and the loop on an option that comes last.\<close>

lemma parse_arguments_Nil: "parse_arguments vars [] = Some (Inr vars)"
  by (subst parse_arguments.simps) simp

lemma parse_arguments_pair:
  "parse_arguments vars (a # v # rest) =
     (if a = ''-p'' then parse_arguments (vars\<lparr>PROMPT := v\<rparr>) rest
      else if a = ''-n'' then parse_arguments (vars\<lparr>NEGATIVE := v\<rparr>) rest
      else if a = ''-i'' then parse_arguments (vars\<lparr>INIT_IMG := v\<rparr>) rest
      else if a = ''-s'' then parse_arguments (vars\<lparr>STRENGTH := v\<rparr>) rest
      else if a = ''-o'' then parse_arguments (vars\<lparr>OUTPUT := v\<rparr>) rest
      else if a = ''-W'' then parse_arguments (vars\<lparr>WIDTH := v\<rparr>) rest
      else if a = ''-H'' then parse_arguments (vars\<lparr>HEIGHT := v\<rparr>) rest
      else if a = ''-S'' then parse_arguments (vars\<lparr>STEPS := v\<rparr>) rest
      else if a = ''--seed'' then parse_arguments (vars\<lparr>SEED := v\<rparr>) rest
      else Some (Inl (''Unknown option: '' @ a)))"
  by (subst parse_arguments.simps) (simp add: arg2_def shift2_def)

lemma parse_arguments_returns:
  "even (length args) \<Longrightarrow> \<exists>r. parse_arguments vars args = Some r"
proof (induction args arbitrary: vars rule: induct_list012)
  case 1
  show ?case by (simp add: parse_arguments_Nil)
next
  case (2 x)
  then show ?case by simp
next
  case (3 x y zs)
  then have "even (length zs)" by simp
  with 3 have "\<And>vars. \<exists>r. parse_arguments vars zs = Some r" by blast
  then show ?case unfolding parse_arguments_pair by simp
qed

lemma generate_sh_returns:
  "even (length args) \<Longrightarrow> \<exists>out. generate_sh dir args = Some out"
proof -
  assume "even (length args)"
  then obtain r where "parse_arguments Defaults args = Some r"
    using parse_arguments_returns by blast
  then show ?thesis by (cases r) (simp_all add: generate_sh_def)
qed

lemma parse_prompt_only:
  "parse_arguments Defaults [''-p'', p] = Some (Inr (Defaults\<lparr>PROMPT := p\<rparr>))"
  by (simp add: parse_arguments_pair parse_arguments_Nil)

lemma parse_prompt_image:
  "parse_arguments Defaults [''-p'', p, ''-i'', i]
     = Some (Inr (Defaults\<lparr>PROMPT := p, INIT_IMG := i\<rparr>))"
  by (simp add: parse_arguments_pair parse_arguments_Nil)

lemma generate_sh_parsed:
  "parse_arguments Defaults args = Some (Inr vars) \<Longrightarrow>
   generate_sh dir args
     = (if PROMPT vars = [] then Some (Exit1 prompt_required) else Some (Run (CMD dir vars)))"
  by (simp add: generate_sh_def)

lemma generate_sh_Run:
  "generate_sh dir args = Some (Run cmd) \<Longrightarrow>
   \<exists>vars. parse_arguments Defaults args = Some (Inr vars) \<and> PROMPT vars \<noteq> [] \<and> cmd = CMD dir vars"
  by (auto simp: generate_sh_def split: option.splits sum.splits if_splits)

lemma trim_blank: "trim ''  '' = []"
  by (simp add: trim_def is_js_whitespace_def)

lemma parse_arguments_last_option_loops:
  "parse_arguments vars [''-p''] = parse_arguments (vars\<lparr>PROMPT := ''''\<rparr>) [''-p'']"
  by (subst parse_arguments.simps) (simp add: arg2_def shift2_def)








section \<open>The prompt check\<close>

text \<open>
  C7, as the code does it. A form submission whose prompt is empty or only white space
  is dropped: \<open>handleSubmit\<close> returns without calling \<open>onGenerate\<close>, raising nothing.
  \<open>generate.sh\<close> prints its error and exits with status 1, without running the engine
  command, whenever the prompt left by the argument loop is the empty string; it runs
  the engine command only with a prompt that is not empty, and it returns on every
  argument list of even length. It does not trim the prompt.
\<close>

theorem empty_prompt_rejected:
  "(trim (form_prompt st) = [] \<longrightarrow> handleSubmit st g = None)
   \<and> generate_sh dir [] = Some (Exit1 prompt_required)
   \<and> generate_sh dir [''-p'', ''''] = Some (Exit1 prompt_required)
   \<and> (even (length args) \<longrightarrow> (\<exists>out. generate_sh dir args = Some out))
   \<and> (parse_arguments Defaults args = Some (Inr vars) \<and> PROMPT vars = [] \<longrightarrow>
        generate_sh dir args = Some (Exit1 prompt_required))
   \<and> (generate_sh dir args = Some (Run cmd) \<longrightarrow>
        (\<exists>vars. parse_arguments Defaults args = Some (Inr vars) \<and> PROMPT vars \<noteq> []
           \<and> cmd = CMD dir vars))"
proof (intro conjI impI)
  show "generate_sh dir [] = Some (Exit1 prompt_required)"
    by (simp add: generate_sh_def parse_arguments_Nil Defaults_def)
  show "generate_sh dir [''-p'', ''''] = Some (Exit1 prompt_required)"
    by (simp add: generate_sh_def parse_prompt_only)
qed (simp_all add: handleSubmit_def generate_sh_returns generate_sh_parsed generate_sh_Run)

text \<open>A blank prompt in the form, and \<open>-W 512 -p ""\<close> on the command line.\<close>

theorem empty_prompt_rejected_witness:
  "trim (form_prompt (setPrompt ''  '' initial_form)) = []
   \<and> handleSubmit (setPrompt ''  '' initial_form) False = None
   \<and> even (length [''-W'', ''512'', ''-p'', ''''])
   \<and> parse_arguments Defaults [''-W'', ''512'', ''-p'', '''']
        = Some (Inr (Defaults\<lparr>WIDTH := ''512'', PROMPT := ''''\<rparr>))
   \<and> PROMPT (Defaults\<lparr>WIDTH := ''512'', PROMPT := ''''\<rparr>) = []
   \<and> generate_sh ''/opt/z'' [''-W'', ''512'', ''-p'', ''''] = Some (Exit1 prompt_required)
   \<and> generate_sh ''/opt/z'' [''-p'', ''a cat'']
       = Some (Run (CMD ''/opt/z'' (Defaults\<lparr>PROMPT := ''a cat''\<rparr>)))
   \<and> (\<exists>vars. parse_arguments Defaults [''-p'', ''a cat''] = Some (Inr vars)
         \<and> PROMPT vars \<noteq> []
         \<and> CMD ''/opt/z'' (Defaults\<lparr>PROMPT := ''a cat''\<rparr>) = CMD ''/opt/z'' vars)"
proof -
  have 1: "trim (form_prompt (setPrompt ''  '' initial_form)) = []"
    by (simp add: setPrompt_def trim_blank)
  have 2: "parse_arguments Defaults [''-W'', ''512'', ''-p'', '''']
        = Some (Inr (Defaults\<lparr>WIDTH := ''512'', PROMPT := ''''\<rparr>))"
    by (simp add: parse_arguments_pair parse_arguments_Nil)
  have 3: "PROMPT (Defaults\<lparr>WIDTH := ''512'', PROMPT := ''''\<rparr>) = []" by simp
  from empty_prompt_rejected
    [of "setPrompt ''  '' initial_form" False "''/opt/z''" "[''-W'', ''512'', ''-p'', '''']"
        "Defaults\<lparr>WIDTH := ''512'', PROMPT := ''''\<rparr>"]
    1 2 3
  have a: "handleSubmit (setPrompt ''  '' initial_form) False = None"
    and b: "generate_sh ''/opt/z'' [''-W'', ''512'', ''-p'', ''''] = Some (Exit1 prompt_required)"
    by simp_all
  have 4: "generate_sh ''/opt/z'' [''-p'', ''a cat'']
       = Some (Run (CMD ''/opt/z'' (Defaults\<lparr>PROMPT := ''a cat''\<rparr>)))"
    unfolding generate_sh_def parse_prompt_only by simp
  from empty_prompt_rejected
    [of initial_form False "''/opt/z''" "[''-p'', ''a cat'']" Defaults
        "CMD ''/opt/z'' (Defaults\<lparr>PROMPT := ''a cat''\<rparr>)"] 4
  have c: "\<exists>vars. parse_arguments Defaults [''-p'', ''a cat''] = Some (Inr vars)
         \<and> PROMPT vars \<noteq> []
         \<and> CMD ''/opt/z'' (Defaults\<lparr>PROMPT := ''a cat''\<rparr>) = CMD ''/opt/z'' vars"
    by blast
  from 1 2 3 4 a b c show ?thesis by simp
qed

text \<open>
  C7 as stated fails: a prompt of two spaces is only white space, yet \<open>generate.sh\<close>
  runs the engine command with it.
\<close>

theorem whitespace_prompt_counterexample:
  "trim ''  '' = []
   \<and> generate_sh ''/opt/z'' [''-p'', ''  '']
       = Some (Run (CMD ''/opt/z'' (Defaults\<lparr>PROMPT := ''  ''\<rparr>)))
   \<and> generate_sh ''/opt/z'' [''-p'', ''  ''] \<noteq> Some (Exit1 prompt_required)"
  by (simp add: trim_blank generate_sh_def parse_prompt_only)

section \<open>Defaults\<close>




end
